theory Spec2Isabelle
  imports Complex_Main
begin

section \<open>Data model of the ML service (ml-service/main.py)\<close>

text \<open>
  Python floats are modelled as reals; where pandas yields NaN (the mean or a quantile of an
  empty series, the sample standard deviation of fewer than two values) the model returns
  \<open>None\<close>, and a comparison with NaN is false, as in Python.  The \<open>date\<close> of a transaction
  is the timestamp that \<open>pd.to_datetime\<close> produced, in seconds since 1970-01-01.
\<close>

record Transaction =
  date :: int
  amount :: real
  type :: string
  category :: string
  merchantName :: string

text \<open>
  Exceptions.  \<open>HTTPException\<close> is FastAPI's; \<open>LibraryError\<close> stands for any exception
  raised inside pandas, numpy or scikit-learn; \<open>IndexError\<close> is Python's.  Every endpoint
  ends with \<open>except Exception as e: raise HTTPException(status_code=500, detail=str(e))\<close>;
  the detail \<open>str(e)\<close> is kept symbolically as \<open>Str e\<close>.
\<close>

datatype exn =
    HTTPException (status_code: int) (detail: detail)
  | LibraryError string
  | IndexError
and detail = Literal string | Str exn

text \<open>The \<open>try: ... except Exception as e: raise HTTPException(500, str(e))\<close> wrapper.
  \<open>HTTPException\<close> is a subclass of \<open>Exception\<close>, so the handler catches it too.\<close>

definition try_except :: "exn + 'a \<Rightarrow> exn + 'a" where
  "try_except body =
     (case body of
        Inl e \<Rightarrow> Inl (HTTPException 500 (Str e))
      | Inr r \<Rightarrow> Inr r)"

section \<open>pandas and numpy helpers\<close>

definition mean :: "real list \<Rightarrow> real option" where
  "mean xs = (if xs = [] then None else Some (sum_list xs / real (length xs)))"

text \<open>
  \<open>Series.std()\<close>: the sample standard deviation (ddof = 1), NaN below two values.  It
  is taken over the reals: for two or more identical amounts it is exactly 0, where the
  floating-point result can be a rounding residue slightly above 0.  No statement below
  depends on which of the two it is.
\<close>

definition std :: "real list \<Rightarrow> real option" where
  "std xs =
     (if length xs < 2 then None
      else let m = sum_list xs / real (length xs)
           in Some (sqrt (sum_list (map (\<lambda>x. (x - m)\<^sup>2) xs) / real (length xs - 1))))"

text \<open>\<open>Series.quantile(q)\<close> with linear interpolation between the order statistics.\<close>

definition quantile :: "real list \<Rightarrow> real \<Rightarrow> real option" where
  "quantile xs q =
     (if xs = [] then None
      else let s = sort xs;
               h = q * real (length xs - 1);
               lo = nat \<lfloor>h\<rfloor>;
               hi = min (lo + 1) (length xs - 1)
           in Some (s ! lo + (h - real lo) * (s ! hi - s ! lo)))"

text \<open>\<open>x > y\<close> where \<open>y\<close> may be NaN.\<close>

definition gt_nan :: "real \<Rightarrow> real option \<Rightarrow> bool" where
  "gt_nan x y = (case y of None \<Rightarrow> False | Some v \<Rightarrow> x > v)"

section \<open>Single-transaction scoring (/score-transaction)\<close>

datatype score_reason =
    NotEnoughData
  | SigmaAway real
  | SigmaAbove real
  | TwiceAverage
  | FirstInCategory
  | Top1Percent
  | Top5Percent

record TransactionScoringRequest =
  new_transaction :: Transaction
  historical_transactions :: "Transaction list"

text \<open>\<open>reason\<close> is kept as the list of the rules that fired, in evaluation order; the
  source joins their sentences with "; ", and the empty list stands for
  "Normal spending pattern".\<close>

record TransactionScoringResponse =
  anomaly_score :: real
  is_anomaly :: bool
  reason :: "score_reason list"
  risk_level :: string

text \<open>Lines 444-468: the comparison with the history of the candidate's category.\<close>

definition category_amounts :: "Transaction list \<Rightarrow> string \<Rightarrow> real list" where
  "category_amounts hist_df cat = map amount (filter (\<lambda>t. category t = cat) hist_df)"

definition category_check :: "Transaction list \<Rightarrow> real \<Rightarrow> string \<Rightarrow> real \<times> score_reason list" where
  "category_check hist_df amt cat =
     (let cat_txs = category_amounts hist_df cat
      in if length cat_txs > 0 then
           (let cat_mean = sum_list cat_txs / real (length cat_txs);
                cat_std = std cat_txs
            in case cat_std of
                 Some s \<Rightarrow>
                   if s > 0 then
                     (let z_score = \<bar>(amt - cat_mean) / s\<bar>
                      in if z_score > 3 then (0.6, [SigmaAway z_score])
                         else if z_score > 2 then (0.3, [SigmaAbove z_score])
                         else (0, []))
                   else if amt > cat_mean * 2 then (0.4, [TwiceAverage])
                   else (0, [])
               | None \<Rightarrow>
                   if amt > cat_mean * 2 then (0.4, [TwiceAverage])
                   else (0, []))
         else (0.2, [FirstInCategory]))"

text \<open>Lines 471-479: the comparison with the 95th percentile of all expense amounts.\<close>

definition overall_check :: "Transaction list \<Rightarrow> real \<Rightarrow> real \<times> score_reason list" where
  "overall_check hist_df amt =
     (let overall_q95 = quantile (map amount (filter (\<lambda>t. type t = ''Expense'') hist_df)) 0.95
      in if gt_nan amt (map_option (\<lambda>q. q * 1.5) overall_q95) then (0.3, [Top1Percent])
         else if gt_nan amt overall_q95 then (0.15, [Top5Percent])
         else (0, []))"

definition risk_of :: "real \<Rightarrow> string" where
  "risk_of score =
     (if score \<ge> 0.6 then ''high''
      else if score \<ge> 0.3 then ''medium''
      else ''low'')"

definition score_single_transaction ::
  "TransactionScoringRequest \<Rightarrow> exn + TransactionScoringResponse" where
  "score_single_transaction request =
     try_except
       (if historical_transactions request = [] then
          Inr \<lparr>anomaly_score = 0, is_anomaly = False,
               reason = [NotEnoughData], risk_level = ''low''\<rparr>
        else
          (let hist_df = historical_transactions request;
               amt = amount (new_transaction request);
               cat = category (new_transaction request);
               (s1, r1) = category_check hist_df amt cat;
               (s2, r2) = overall_check hist_df amt;
               score = min 1.0 (s1 + s2)
           in Inr \<lparr>anomaly_score = score, is_anomaly = (score > 0.5),
                   reason = r1 @ r2, risk_level = risk_of score\<rparr>))"

section \<open>Requests\<close>

text \<open>The three batch requests share \<open>userId\<close> and \<open>transactions\<close>.\<close>

record Request =
  userId :: string
  transactions :: "Transaction list"

record ClusteringRequest = Request +
  n_clusters :: int

record AnomalyRequest = Request +
  contamination :: real

record ForecastingRequest = Request +
  forecast_days :: int

section \<open>Segmentation (/cluster)\<close>

text \<open>
  The dictionaries \<open>{"index", "amount", "category", "date"}\<close> built per transaction; the keys
  that clash with the fields of \<open>Transaction\<close> carry a prime.
\<close>

record TxDict =
  index :: nat
  amount' :: real
  category' :: string
  date' :: int

text \<open>\<open>ClusterInfo\<close> without the free-text description; \<open>id\<close> and \<open>transactions\<close> carry a prime.\<close>

record ClusterInfo =
  id' :: int
  label :: string
  count :: nat
  avg_amount :: "real option"
  top_categories :: "string list"
  transactions' :: "TxDict list"

text \<open>\<open>ClusteringResponse\<close>; the feature importances and the summary sentence are left out.\<close>

record ClusteringResponse =
  clusters :: "ClusterInfo list"

definition fillna :: "real option \<Rightarrow> real" where
  "fillna x = (case x of None \<Rightarrow> 0 | Some v \<Rightarrow> v)"

text \<open>\<open>Series.unique()\<close>: the distinct values in order of first appearance.\<close>

definition unique :: "'a list \<Rightarrow> 'a list" where
  "unique xs = rev (remdups (rev xs))"

fun index_of :: "'a list \<Rightarrow> 'a \<Rightarrow> nat" where
  "index_of [] x = 0"
| "index_of (y # ys) x = (if x = y then 0 else Suc (index_of ys x))"

text \<open>\<open>_engineer_features_for_clustering\<close>: one row of seven columns per transaction.  It is
  called with at least three rows only.\<close>

definition engineer_features_for_clustering :: "Transaction list \<Rightarrow> real list list" where
  "engineer_features_for_clustering df =
     (let avg_amount = fillna (mean (map amount df));
          std_amount = fillna (std (map amount df));
          num_categories = real (length (unique (map category df)));
          expense_ratio = real (length (filter (\<lambda>t. type t = ''Expense'') df)) / real (length df);
          category_map = unique (map category df)
      in map (\<lambda>t. [avg_amount, std_amount, num_categories, expense_ratio,
                     amount t,
                     (if type t = ''Expense'' then 1 else 0),
                     real (index_of category_map (category t))]) df)"

text \<open>Lines 161-162: the cluster count handed to KMeans.\<close>

definition effective_n_clusters :: "nat \<Rightarrow> int \<Rightarrow> int" where
  "effective_n_clusters shape0 n =
     (if int shape0 < n then max 2 (int shape0 - 1) else n)"

text \<open>
  \<open>cluster_dict\<close> is a Python dict from label to the list of its entries; it is kept as an
  association list in insertion order.  \<open>dict_append k v d\<close> is
  \<open>if k not in d: d[k] = []\<close> followed by \<open>d[k].append(v)\<close>.
\<close>

fun dict_append :: "int \<Rightarrow> 'v \<Rightarrow> (int \<times> 'v list) list \<Rightarrow> (int \<times> 'v list) list" where
  "dict_append k v [] = [(k, [v])]"
| "dict_append k v ((k', vs) # d) =
     (if k = k' then (k', vs @ [v]) # d else (k', vs) # dict_append k v d)"

definition dict_get :: "(int \<times> 'v list) list \<Rightarrow> int \<Rightarrow> 'v list" where
  "dict_get d k = (case map_of d k of Some vs \<Rightarrow> vs | None \<Rightarrow> [])"

text \<open>Lines 173-183: \<open>for i, cluster_id in enumerate(clusters)\<close>; \<open>df.iloc[i]\<close> raises
  IndexError beyond the last row.\<close>

fun build_cluster_dict ::
  "Transaction list \<Rightarrow> nat \<Rightarrow> int list \<Rightarrow> (int \<times> TxDict list) list
     \<Rightarrow> exn + (int \<times> TxDict list) list" where
  "build_cluster_dict df i [] cluster_dict = Inr cluster_dict"
| "build_cluster_dict df i (cluster_id # rest) cluster_dict =
     (if i < length df then
        build_cluster_dict df (Suc i) rest
          (dict_append cluster_id
             \<lparr>index = i, amount' = amount (df ! i), category' = category (df ! i),
              date' = date (df ! i)\<rparr> cluster_dict)
      else Inl IndexError)"

subsection \<open>Cluster statistics of \<open>_generate_cluster_persona\<close>\<close>

definition essentials :: "string set" where
  "essentials = {''Food & Dining'', ''Groceries'', ''Utilities'', ''Transportation'',
                 ''Healthcare'', ''Medical'', ''Insurance''}"

definition entertainment :: "string set" where
  "entertainment = {''Entertainment'', ''Shopping'', ''Travel'', ''Dining'', ''Subscriptions''}"

text \<open>\<open>(cluster_df['date'].max() - cluster_df['date'].min()).days\<close>; a cluster has at least
  one row.\<close>

definition date_range :: "Transaction list \<Rightarrow> int" where
  "date_range cluster_df =
     (case map date cluster_df of
        [] \<Rightarrow> 0
      | d # ds \<Rightarrow> (fold max ds d - fold min ds d) div 86400)"

definition frequency :: "Transaction list \<Rightarrow> real" where
  "frequency cluster_df =
     (let count = length cluster_df; date_range = date_range cluster_df
      in if date_range > 0 then (real count / real_of_int (max date_range 1)) * 30
         else real count)"

definition expense_count :: "Transaction list \<Rightarrow> nat" where
  "expense_count cluster_df = length (filter (\<lambda>t. type t = ''Expense'') cluster_df)"

definition expense_ratio :: "Transaction list \<Rightarrow> real" where
  "expense_ratio cluster_df =
     (if length cluster_df > 0 then real (expense_count cluster_df) / real (length cluster_df)
      else 0)"

definition essentials_ratio :: "Transaction list \<Rightarrow> real" where
  "essentials_ratio cluster_df =
     (let essentials_count = length (filter (\<lambda>t. category t \<in> essentials) cluster_df)
      in if expense_count cluster_df > 0
         then real essentials_count / real (expense_count cluster_df) else 0)"

definition entertainment_ratio :: "Transaction list \<Rightarrow> real" where
  "entertainment_ratio cluster_df =
     (let entertainment_count = length (filter (\<lambda>t. category t \<in> entertainment) cluster_df)
      in if expense_count cluster_df > 0
         then real entertainment_count / real (expense_count cluster_df) else 0)"

text \<open>\<open>value_counts().head(3)\<close>: categories by descending count, ties in order of first
  appearance.\<close>

definition top_cat_names :: "Transaction list \<Rightarrow> string list" where
  "top_cat_names cluster_df =
     (let cats = map category cluster_df;
          cat_counts = map (\<lambda>c. (c, length (filter (\<lambda>x. x = c) cats))) (unique cats)
      in map fst (take 3 (sort_key (\<lambda>(c, n). - int n) cat_counts)))"

text \<open>Comparisons of \<open>avg_amount\<close>, which is NaN for an empty frame.\<close>

definition nan_gt :: "real option \<Rightarrow> real \<Rightarrow> bool" where
  "nan_gt x c = (case x of None \<Rightarrow> False | Some v \<Rightarrow> v > c)"

definition nan_lt :: "real option \<Rightarrow> real \<Rightarrow> bool" where
  "nan_lt x c = (case x of None \<Rightarrow> False | Some v \<Rightarrow> v < c)"

text \<open>\<open>_assign_persona_label\<close>, the label of the pair it returns.\<close>

definition assign_persona_label ::
  "real option \<Rightarrow> real \<Rightarrow> real \<Rightarrow> real \<Rightarrow> real \<Rightarrow> string list \<Rightarrow> string \<Rightarrow> nat \<Rightarrow> nat \<Rightarrow> string" where
  "assign_persona_label avg_amt freq exp_ratio ess_ratio ent_ratio
       top_cats dominant_cat total_count exp_count =
     (if (ent_ratio > 0.3 \<or> (''Food & Dining'' \<in> set top_cats \<and> freq > 5))
         \<and> nan_gt avg_amt 500 then ''Lifestyle Spender''
      else if nan_lt avg_amt 500 \<and> ess_ratio > 0.6 \<and> freq > 3
        then ''Conscious Saver''
      else if nan_gt avg_amt 3000 \<and> freq < 2 then ''Big Ticket Buyer''
      else if length top_cats \<ge> 3 \<and> nan_gt avg_amt 500 \<and> nan_lt avg_amt 3000
              \<and> 0.3 < ent_ratio \<and> ent_ratio < 0.6
        then ''Balanced Spender''
      else if ess_ratio > 0.7 \<and> ent_ratio < 0.15 \<and> nan_lt avg_amt 2000
        then ''Essentials-First''
      else if freq > 8 \<and> nan_lt avg_amt 1000 then ''Frequent Small Spender''
      else if freq < 1 \<and> nan_gt avg_amt 2000 then ''Occasional High Spender''
      else dominant_cat @ '' Focused'')"

text \<open>\<open>_generate_cluster_persona\<close>.  The indices of \<open>cluster_txs\<close> were produced by
  \<open>build_cluster_dict\<close> and are rows of \<open>df\<close>.\<close>

definition generate_cluster_persona :: "int \<Rightarrow> TxDict list \<Rightarrow> Transaction list \<Rightarrow> ClusterInfo" where
  "generate_cluster_persona cluster_id cluster_txs df =
     (let indices = map index cluster_txs;
          cluster_df = map (\<lambda>i. df ! i) indices;
          n = length cluster_txs;
          avg = mean (map amount cluster_df);
          top_cats = top_cat_names cluster_df;
          dominant_category = (case top_cats of [] \<Rightarrow> ''Unknown'' | c # _ \<Rightarrow> c)
      in \<lparr>id' = cluster_id,
          label = assign_persona_label avg (frequency cluster_df) (expense_ratio cluster_df)
                    (essentials_ratio cluster_df) (entertainment_ratio cluster_df)
                    top_cats dominant_category n (expense_count cluster_df),
          count = n,
          avg_amount = avg,
          top_categories = top_cats,
          transactions' = cluster_txs\<rparr>)"

text \<open>
  \<open>clustering_analysis\<close>.  The parameter \<open>kmeans\<close> stands for scikit-learn:
  \<open>kmeans k features_df\<close> is the outcome of \<open>StandardScaler().fit_transform(features_df)\<close>
  followed by \<open>KMeans(n_clusters=k, random_state=42, n_init=10).fit_predict\<close>, either an
  exception or the array of labels.
\<close>

definition clustering_analysis ::
  "(int \<Rightarrow> real list list \<Rightarrow> exn + int list) \<Rightarrow> ClusteringRequest \<Rightarrow> exn + ClusteringResponse" where
  "clustering_analysis kmeans request =
     try_except
       (if length (transactions request) < 3 then
          Inl (HTTPException 400 (Literal ''Need at least 3 transactions for clustering''))
        else
          (let df = transactions request;
               features_df = engineer_features_for_clustering df;
               n = effective_n_clusters (length features_df) (n_clusters request)
           in case kmeans n features_df of
                Inl e \<Rightarrow> Inl e
              | Inr cluster_labels \<Rightarrow>
                  (case build_cluster_dict df 0 cluster_labels [] of
                     Inl e \<Rightarrow> Inl e
                   | Inr cluster_dict \<Rightarrow>
                       Inr \<lparr>clusters =
                              map (\<lambda>cluster_id.
                                     generate_cluster_persona cluster_id
                                       (dict_get cluster_dict cluster_id) df)
                                  (sort (map fst cluster_dict))\<rparr>)))"

section \<open>Batch anomaly detection (/anomalies)\<close>

datatype anomaly_reason =
    AboveCategoryAverage
  | UnusuallyLow
  | Top5PercentAmount
  | UnusualPattern

text \<open>The entries of \<open>high_risk\<close>: the keys of \<open>TxDict\<close> plus the score and the reason.\<close>

record HighRisk = TxDict +
  anomaly_score' :: real
  reason' :: anomaly_reason

text \<open>\<open>AnomalyResponse\<close> without the summary sentence.\<close>

record AnomalyResponse =
  anomalies :: "nat list"
  scores :: "real list"
  high_risk_transactions :: "HighRisk list"

text \<open>\<open>_explain_anomaly\<close>, the template chosen.\<close>

definition explain_anomaly :: "Transaction \<Rightarrow> Transaction list \<Rightarrow> anomaly_reason" where
  "explain_anomaly transaction df =
     (let amt = amount transaction;
          similar = category_amounts df (category transaction);
          mean_amt = sum_list similar / real (length similar)
      in if length similar > 1 \<and> amt > mean_amt * 2 then AboveCategoryAverage
         else if length similar > 1 \<and> amt < mean_amt * 0.5 then UnusuallyLow
         else if gt_nan amt (quantile (map amount df) 0.95) then Top5PercentAmount
         else UnusualPattern)"

text \<open>\<open>np.where(anomaly_labels == -1)[0].tolist()\<close>.\<close>

definition anomaly_indices_of :: "int list \<Rightarrow> nat list" where
  "anomaly_indices_of anomaly_labels =
     filter (\<lambda>i. anomaly_labels ! i = - 1) [0..<length anomaly_labels]"

text \<open>
  \<open>anomaly_detection\<close>.  The parameter \<open>iso_forest\<close> stands for the feature table, the scaler
  and scikit-learn's detector: \<open>iso_forest c df\<close> is the outcome of
  \<open>IsolationForest(contamination=c, random_state=42, n_estimators=100)\<close> on the scaled
  features of \<open>df\<close>, either an exception or the pair of \<open>fit_predict\<close> (labels 1 and -1) and
  \<open>score_samples\<close>.  Indexing \<open>anomaly_scores\<close> or \<open>df\<close> beyond the end raises IndexError.
\<close>

definition anomaly_detection ::
  "(real \<Rightarrow> Transaction list \<Rightarrow> exn + int list \<times> real list) \<Rightarrow> AnomalyRequest
     \<Rightarrow> exn + AnomalyResponse" where
  "anomaly_detection iso_forest request =
     try_except
       (if length (transactions request) < 5 then
          Inl (HTTPException 400 (Literal ''Need at least 5 transactions for anomaly detection''))
        else
          (let df = transactions request
           in case iso_forest (contamination request) df of
                Inl e \<Rightarrow> Inl e
              | Inr (anomaly_labels, anomaly_scores) \<Rightarrow>
                  (let anomaly_indices = anomaly_indices_of anomaly_labels
                   in if \<exists>idx \<in> set anomaly_indices. idx \<ge> length anomaly_scores then Inl IndexError
                      else if \<exists>idx \<in> set anomaly_indices. idx \<ge> length df then Inl IndexError
                      else
                        (let high_risk =
                               map (\<lambda>idx.
                                      \<lparr>index = idx, amount' = amount (df ! idx),
                                       category' = category (df ! idx), date' = date (df ! idx),
                                       anomaly_score' = - (anomaly_scores ! idx),
                                       reason' = explain_anomaly (df ! idx) df\<rparr>) anomaly_indices
                         in Inr \<lparr>anomalies = anomaly_indices,
                                 scores = map (\<lambda>idx. - (anomaly_scores ! idx)) anomaly_indices,
                                 high_risk_transactions =
                                   sort_key (\<lambda>x. - anomaly_score' x) high_risk\<rparr>))))"

section \<open>Forecasting (/forecast)\<close>

text \<open>A forecast point; its \<open>date\<close> key is named \<open>forecast_date\<close>.\<close>

record ForecastPoint =
  forecast_date :: int
  predicted_expense :: real
  confidence :: real
  range_low :: real
  range_high :: real
  seasonal_day :: string

text \<open>\<open>ForecastingResponse\<close> without the summary sentence.\<close>

record ForecastingResponse =
  forecast :: "ForecastPoint list"
  trend :: string

text \<open>The calendar day of a timestamp (days since 1970-01-01) and its weekday, Monday = 0;
  1970-01-01 was a Thursday.\<close>

definition day_of :: "int \<Rightarrow> int" where
  "day_of ts = ts div 86400"

definition weekday :: "int \<Rightarrow> nat" where
  "weekday d = nat ((d + 3) mod 7)"

text \<open>\<open>expenses.groupby(expenses['date'].dt.date)['amount'].sum()\<close>: one row per calendar
  day in ascending order, as pairs of day and total.\<close>

definition daily_expenses_of :: "Transaction list \<Rightarrow> (int \<times> real) list" where
  "daily_expenses_of expenses =
     map (\<lambda>d. (d, sum_list (map amount (filter (\<lambda>t. day_of (date t) = d) expenses))))
         (sort (remdups (map (\<lambda>t. day_of (date t)) expenses)))"

text \<open>
  \<open>np.polyfit(x, y, 1)[0]\<close>, the least-squares slope.  On a single point the system is
  singular (numpy scales its first column by 0, which leaves NaN in the matrix handed to the
  solver); the model takes the fit to raise there, so that no forecast is built from a
  history of a single day, whose \<open>std_daily\<close> is NaN.
\<close>

definition polyfit_slope :: "real list \<Rightarrow> real list \<Rightarrow> exn + real" where
  "polyfit_slope xs ys =
     (if length xs \<noteq> length ys then Inl (LibraryError ''expected x and y to have same length'')
      else if length xs < 2 then Inl (LibraryError ''SVD did not converge in Linear Least Squares'')
      else let n = real (length xs);
               sx = sum_list xs; sy = sum_list ys;
               sxy = sum_list (map2 (*) xs ys);
               sxx = sum_list (map (\<lambda>x. x * x) xs)
           in Inr ((n * sxy - sx * sy) / (n * sxx - sx * sx)))"

text \<open>\<open>Series.ewm(span=s, adjust=False).mean()\<close> with \<open>\<alpha> = 2 / (s + 1)\<close>.\<close>

fun ewm_from :: "real \<Rightarrow> real \<Rightarrow> real list \<Rightarrow> real list" where
  "ewm_from \<alpha> prev [] = []"
| "ewm_from \<alpha> prev (x # xs) = (let y = (1 - \<alpha>) * prev + \<alpha> * x in y # ewm_from \<alpha> y xs)"

definition ewm_mean :: "nat \<Rightarrow> real list \<Rightarrow> real list" where
  "ewm_mean span' xs =
     (case xs of [] \<Rightarrow> [] | x # rest \<Rightarrow> x # ewm_from (2 / (real span' + 1)) x rest)"

text \<open>Lines 333-346: the seasonal factor of weekday \<open>day\<close>.\<close>

definition seasonal_factor_of :: "(int \<times> real) list \<Rightarrow> nat \<Rightarrow> real" where
  "seasonal_factor_of daily day =
     (if length daily \<ge> 14 then
        (let present = filter (\<lambda>w. w \<in> set (map (\<lambda>(d, a). weekday d) daily)) [0..<7];
             weekly_avg = (\<lambda>w. fillna (mean (map snd (filter (\<lambda>(d, a). weekday d = w) daily))));
             weekly_mean = fillna (mean (map weekly_avg present))
         in if day \<in> set present \<and> weekly_mean > 0 then weekly_avg day / weekly_mean else 1.0)
      else 1.0)"

text \<open>Lines 349-353: the slope over the last seven smoothed values.\<close>

definition trend_coef_of :: "real list \<Rightarrow> real list \<Rightarrow> exn + real" where
  "trend_coef_of ema_val y =
     (if length ema_val \<ge> 7 then
        polyfit_slope (map real [0..<7]) (drop (length ema_val - 7) ema_val)
      else if length y \<ge> 7 then
        polyfit_slope (map real [length y - 7..<length y]) (drop (length y - 7) y)
      else Inr 0)"

text \<open>Lines 356-384: the forecast of day \<open>i\<close> of the horizon.\<close>

definition forecast_point ::
  "(int \<times> real) list \<Rightarrow> int \<Rightarrow> real \<Rightarrow> real \<Rightarrow> real \<Rightarrow> int \<Rightarrow> int \<Rightarrow> ForecastPoint" where
  "forecast_point daily last_date current_ema trend_coef std_daily horizon i =
     (let fdate = last_date + i * 86400;
          day_of_week = weekday (day_of fdate);
          ema_forecast = max 0 (current_ema + trend_coef * real_of_int i);
          predicted = max 100 (ema_forecast * seasonal_factor_of daily day_of_week);
          base_confidence = max 0.6 (1 - (real_of_int i / real_of_int horizon * 0.3));
          seasonality_boost = (if length daily \<ge> 14 then 0.1 else 0);
          conf = min 0.95 (base_confidence + seasonality_boost);
          confidence_interval = std_daily * (1 - conf) * 1.5
      in \<lparr>forecast_date = fdate,
          predicted_expense = predicted,
          confidence = conf,
          range_low = max 0 (predicted - confidence_interval),
          range_high = predicted + confidence_interval,
          seasonal_day = [''Mon'', ''Tue'', ''Wed'', ''Thu'', ''Fri'', ''Sat'', ''Sun''] ! day_of_week\<rparr>)"

definition trend_of :: "real \<Rightarrow> real \<Rightarrow> string" where
  "trend_of trend_coef std_daily =
     (if trend_coef > std_daily * 0.1 then ''increasing''
      else if trend_coef < - std_daily * 0.1 then ''decreasing''
      else ''stable'')"

text \<open>
  \<open>expense_forecasting\<close>.  \<open>last_date\<close> is the midnight of the latest day with an expense.
  \<open>std_daily\<close> is NaN, and \<open>last_date\<close> undefined, only below two daily totals, where the
  first fit has already raised; those branches carry an error.
\<close>

definition expense_forecasting :: "ForecastingRequest \<Rightarrow> exn + ForecastingResponse" where
  "expense_forecasting request =
     try_except
       (if length (transactions request) < 10 then
          Inl (HTTPException 400 (Literal ''Need at least 10 transactions for forecasting''))
        else
          (let expenses = filter (\<lambda>t. type t = ''Expense'') (transactions request)
           in if length expenses < 10 then
                Inl (HTTPException 400 (Literal ''Need at least 10 expense transactions''))
              else
                (let daily = daily_expenses_of expenses;
                     y = map snd daily
                 in case polyfit_slope (map real [0..<length daily]) y of
                      Inl e \<Rightarrow> Inl e
                    | Inr z \<Rightarrow>
                        (case (std y, map fst daily) of
                           (Some std_daily, d # ds) \<Rightarrow>
                             (let last_date = fold max ds d * 86400;
                                  ema_val = ewm_mean (min 7 (length daily)) y;
                                  current_ema = (if length ema_val > 0 then last ema_val
                                                 else fillna (mean y))
                              in case trend_coef_of ema_val y of
                                   Inl e \<Rightarrow> Inl e
                                 | Inr trend_coef \<Rightarrow>
                                     Inr \<lparr>forecast =
                                            map (forecast_point daily last_date current_ema
                                                   trend_coef std_daily (forecast_days request))
                                                [1..forecast_days request],
                                          trend = trend_of trend_coef std_daily\<rparr>)
                         | _ \<Rightarrow> Inl (LibraryError ''nan'')))))"

section \<open>Example inputs\<close>

definition ex_tx :: "int \<Rightarrow> real \<Rightarrow> string \<Rightarrow> string \<Rightarrow> Transaction" where
  "ex_tx d a ty c =
     \<lparr>date = d * 86400, amount = a, type = ty, category = c, merchantName = ''shop''\<rparr>"

text \<open>Two transactions, below every minimum.\<close>

definition ex_small :: "Transaction list" where
  "ex_small = [ex_tx 0 10 ''Expense'' ''Food'', ex_tx 1 5000 ''Expense'' ''Rent'']"

text \<open>The three transactions of the specification's clustering example.\<close>

definition ex_three :: "Transaction list" where
  "ex_three = [ex_tx 0 10 ''Expense'' ''Food'', ex_tx 1 5000 ''Expense'' ''Rent'',
               ex_tx 2 12 ''Expense'' ''Food'']"

text \<open>A food history with mean 100 and sample standard deviation 2.\<close>

definition ex_hist :: "Transaction list" where
  "ex_hist = [ex_tx 0 98 ''Expense'' ''Food'', ex_tx 1 100 ''Expense'' ''Food'',
              ex_tx 2 102 ''Expense'' ''Food'']"

definition ex_score_request :: "real \<Rightarrow> TransactionScoringRequest" where
  "ex_score_request a =
     \<lparr>new_transaction = (ex_tx 3 0 ''Expense'' ''Food'')\<lparr>amount := a\<rparr>,
      historical_transactions = ex_hist\<rparr>"

text \<open>A cluster of one grocery expense and one insurance payout, and a cluster of two
  expenses of the same day.\<close>

definition ex_payout_cluster :: "Transaction list" where
  "ex_payout_cluster = [ex_tx 0 40 ''Expense'' ''Groceries'', ex_tx 0 900 ''Income'' ''Insurance'']"

definition ex_same_day_cluster :: "Transaction list" where
  "ex_same_day_cluster = [ex_tx 0 40 ''Expense'' ''Groceries'', ex_tx 0 60 ''Expense'' ''Groceries'']"

text \<open>A stand-in for KMeans that numbers the rows round-robin.\<close>

definition ex_kmeans :: "int \<Rightarrow> real list list \<Rightarrow> exn + int list" where
  "ex_kmeans k X = Inr (map (\<lambda>i. int i mod k) [0..<length X])"

text \<open>
  Ten food expenses on ten Thursdays: 5000, then 50000, then eight amounts from 100 to 107.
  Every feature of the anomaly table that varies over these rows grows with the amount, so
  each isolation tree separates the largest amount no later than the second largest, and the
  second largest long before the rest.
\<close>

definition ex_outliers :: "Transaction list" where
  "ex_outliers =
     [ex_tx 0 5000 ''Expense'' ''Food'', ex_tx 7 50000 ''Expense'' ''Food'',
      ex_tx 14 100 ''Expense'' ''Food'', ex_tx 21 101 ''Expense'' ''Food'',
      ex_tx 28 102 ''Expense'' ''Food'', ex_tx 35 103 ''Expense'' ''Food'',
      ex_tx 42 104 ''Expense'' ''Food'', ex_tx 49 105 ''Expense'' ''Food'',
      ex_tx 56 106 ''Expense'' ''Food'', ex_tx 63 107 ''Expense'' ''Food'']"

text \<open>
  A stand-in for the detector on that frame.  \<open>score_samples\<close> is given to two decimals
  (0.80 for the row of 50000, 0.69 for the row of 5000, between 0.37 and 0.45 for the
  others, sign-flipped); the labels follow the library's rule: a row is labelled -1 when its
  score lies below the contamination percentile of all scores.  Other frames have no
  stand-in.
\<close>

definition ex_forest_scores :: "real list" where
  "ex_forest_scores =
     [- 0.69, - 0.8, - 0.45, - 0.39, - 0.38, - 0.37, - 0.37, - 0.38, - 0.39, - 0.45]"

definition ex_iso :: "real \<Rightarrow> Transaction list \<Rightarrow> exn + int list \<times> real list" where
  "ex_iso c df =
     (if df = ex_outliers then
        (case quantile ex_forest_scores c of
           None \<Rightarrow> Inl (LibraryError ''empty'')
         | Some offset \<Rightarrow>
             Inr (map (\<lambda>s. if s < offset then - 1 else 1) ex_forest_scores,
                  ex_forest_scores))
      else Inl (LibraryError ''no stand-in for this frame''))"

text \<open>The response of /anomalies to that frame at contamination 0.2.\<close>

definition ex_anomaly_response :: AnomalyResponse where
  "ex_anomaly_response =
     \<lparr>anomalies = [0, 1], scores = [0.69, 0.8],
      high_risk_transactions =
        [\<lparr>index = 1, amount' = 50000, category' = ''Food'', date' = 604800,
          anomaly_score' = 0.8, reason' = AboveCategoryAverage\<rparr>,
         \<lparr>index = 0, amount' = 5000, category' = ''Food'', date' = 0,
          anomaly_score' = 0.69, reason' = UnusualPattern\<rparr>]\<rparr>"


text \<open>Ten expenses of 1000 on ten consecutive days (the specification's forecasting
  example), and the responses for a horizon of 5 days and of -1 days.\<close>

definition ex_ten :: "Transaction list" where
  "ex_ten = map (\<lambda>d. ex_tx d 1000 ''Expense'' ''Food'') [0, 1, 2, 3, 4, 5, 6, 7, 8, 9]"

definition ex_point :: "int \<Rightarrow> real \<Rightarrow> string \<Rightarrow> ForecastPoint" where
  "ex_point d c s =
     \<lparr>forecast_date = d * 86400, predicted_expense = 1000, confidence = c,
      range_low = 1000, range_high = 1000, seasonal_day = s\<rparr>"

definition ex_forecast_response :: ForecastingResponse where
  "ex_forecast_response =
     \<lparr>forecast = [ex_point 10 0.94 ''Sun'', ex_point 11 0.88 ''Mon'', ex_point 12 0.82 ''Tue'',
                  ex_point 13 0.76 ''Wed'', ex_point 14 0.7 ''Thu''],
      trend = ''stable''\<rparr>"

definition ex_empty_forecast :: ForecastingResponse where
  "ex_empty_forecast = \<lparr>forecast = [], trend = ''stable''\<rparr>"

section \<open>Auxiliary facts\<close>

lemma features_rows: "length (engineer_features_for_clustering df) = length df"
  by (simp add: engineer_features_for_clustering_def Let_def)

lemma fold_max_Max: "fold max ds (d::int) = Max (set (d # ds))"
  by (simp only: Max.set_eq_fold)

lemma fold_min_Min: "fold min ds (d::int) = Min (set (d # ds))"
  by (simp only: Min.set_eq_fold)

lemma date_range_eq:
  assumes "cluster_df \<noteq> []"
  shows "date_range cluster_df
           = (Max (date ` set cluster_df) - Min (date ` set cluster_df)) div 86400"
proof -
  obtain t ts where c: "cluster_df = t # ts"
    using assms by (cases cluster_df) auto
  show ?thesis
    unfolding c date_range_def by (simp add: fold_max_Max fold_min_Min)
qed

lemma date_range_nonneg: "0 \<le> date_range cluster_df"
proof (cases cluster_df)
  case Nil
  then show ?thesis by (simp add: date_range_def)
next
  case (Cons t ts)
  have "Min (date ` set cluster_df) \<le> Max (date ` set cluster_df)"
    using Cons by (intro Min_le_iff[THEN iffD2]) auto
  then show ?thesis
    using date_range_eq[of cluster_df] Cons by simp
qed

lemma ex_hist_std: "std (category_amounts ex_hist ''Food'') = Some 2"
  by (simp add: std_def category_amounts_def ex_hist_def ex_tx_def)

lemma ex_score_50:
  "score_single_transaction (ex_score_request 50)
     = Inr \<lparr>anomaly_score = 0.6, is_anomaly = True, reason = [SigmaAway 25],
            risk_level = ''high''\<rparr>"
  by (simp add: score_single_transaction_def try_except_def category_check_def overall_check_def
        ex_hist_std ex_score_request_def ex_tx_def gt_nan_def risk_of_def Let_def)
     (simp add: category_amounts_def ex_hist_def ex_tx_def quantile_def)

lemma ex_score_100:
  "score_single_transaction (ex_score_request 100)
     = Inr \<lparr>anomaly_score = 0, is_anomaly = False, reason = [], risk_level = ''low''\<rparr>"
  by (simp add: score_single_transaction_def try_except_def category_check_def overall_check_def
        ex_hist_std ex_score_request_def ex_tx_def gt_nan_def risk_of_def Let_def)
     (simp add: category_amounts_def ex_hist_def ex_tx_def quantile_def)

lemma ex_score_200:
  "score_single_transaction (ex_score_request 200)
     = Inr \<lparr>anomaly_score = 0.9, is_anomaly = True, reason = [SigmaAway 50, Top1Percent],
            risk_level = ''high''\<rparr>"
  by (simp add: score_single_transaction_def try_except_def category_check_def overall_check_def
        ex_hist_std ex_score_request_def ex_tx_def gt_nan_def risk_of_def Let_def)
     (simp add: category_amounts_def ex_hist_def ex_tx_def quantile_def)

lemma category_check_mono:
  assumes "a1 < a2"
    and "case std (category_amounts h c) of None \<Rightarrow> True
         | Some s \<Rightarrow> 0 < s \<longrightarrow>
             sum_list (category_amounts h c) / real (length (category_amounts h c)) \<le> a1"
  shows "fst (category_check h a1 c) \<le> fst (category_check h a2 c)"
proof (cases "std (category_amounts h c)")
  case None
  with assms(1) show ?thesis
    by (auto simp: category_check_def Let_def)
next
  case (Some s)
  show ?thesis
  proof (cases "0 < s")
    case False
    with Some assms(1) show ?thesis
      by (auto simp: category_check_def Let_def)
  next
    case True
    define m where "m = sum_list (category_amounts h c) / real (length (category_amounts h c))"
    from assms(2) Some True have le: "m \<le> a1"
      by (simp add: m_def)
    have z: "\<bar>(a1 - m) / s\<bar> \<le> \<bar>(a2 - m) / s\<bar>"
      using le assms(1) True by (simp add: abs_if divide_le_cancel field_simps)
    show ?thesis
      using Some True z by (auto simp: category_check_def Let_def m_def)
  qed
qed

lemma overall_check_mono:
  assumes "a1 < a2"
  shows "fst (overall_check h a1) \<le> fst (overall_check h a2)"
  using assms by (auto simp: overall_check_def gt_nan_def Let_def split: option.splits)

lemma ex_iso_run:
  "ex_iso (1 / 5) ex_outliers = Inr ([- 1, - 1, 1, 1, 1, 1, 1, 1, 1, 1], ex_forest_scores)"
  by (simp add: ex_iso_def quantile_def ex_forest_scores_def)

lemma ex_anomaly_indices: "anomaly_indices_of [- 1, - 1, 1, 1, 1, 1, 1, 1, 1, 1] = [0, 1]"
  by (simp add: anomaly_indices_of_def upt_rec)

lemma ex_explain_first: "explain_anomaly (ex_outliers ! 0) ex_outliers = UnusualPattern"
  by (simp add: explain_anomaly_def quantile_def gt_nan_def Let_def ex_outliers_def ex_tx_def
        category_amounts_def)

lemma ex_explain_second: "explain_anomaly (ex_outliers ! 1) ex_outliers = AboveCategoryAverage"
  by (simp add: explain_anomaly_def quantile_def gt_nan_def Let_def ex_outliers_def ex_tx_def
        category_amounts_def)

lemma ex_outliers_rows:
  "length ex_outliers = 10"
  "amount (ex_outliers ! 0) = 5000" "category (ex_outliers ! 0) = ''Food''"
  "date (ex_outliers ! 0) = 0"
  "amount (ex_outliers ! Suc 0) = 50000" "category (ex_outliers ! Suc 0) = ''Food''"
  "date (ex_outliers ! Suc 0) = 604800"
  by (simp_all add: ex_outliers_def ex_tx_def)

lemma ex_anomaly_run:
  "anomaly_detection ex_iso \<lparr>userId = ''u'', transactions = ex_outliers, contamination = 0.2\<rparr>
     = Inr ex_anomaly_response"
  by (simp add: anomaly_detection_def try_except_def ex_iso_run ex_anomaly_indices Let_def
        ex_explain_first ex_explain_second[simplified] ex_anomaly_response_def
        ex_outliers_rows ex_forest_scores_def)

lemma descending_of_negated_key:
  "sorted (map (\<lambda>x. - f x) xs) \<Longrightarrow> sorted_wrt (\<ge>) (map (f :: 'a \<Rightarrow> real) xs)"
  by (simp add: sorted_wrt_map)

lemma anomaly_indices_ascending:
  "sorted (anomaly_indices_of ls) \<and> distinct (anomaly_indices_of ls)"
  by (simp add: anomaly_indices_of_def sorted_wrt_filter)














lemma ewm_mean_nonempty: "xs \<noteq> [] \<Longrightarrow> ewm_mean s xs \<noteq> []"
  by (cases xs) (simp_all add: ewm_mean_def)

lemma forecasting_accepts:
  assumes "10 \<le> length (transactions request)"
    and "10 \<le> length (filter (\<lambda>t. type t = ''Expense'') (transactions request))"
    and "daily = daily_expenses_of (filter (\<lambda>t. type t = ''Expense'') (transactions request))"
    and "polyfit_slope (map real [0..<length daily]) (map snd daily) = Inr z"
    and "std (map snd daily) = Some sd"
    and "map fst daily = d # ds"
    and "trend_coef_of (ewm_mean (min 7 (length daily)) (map snd daily)) (map snd daily) = Inr tc"
  shows "expense_forecasting request =
           Inr \<lparr>forecast =
                  map (forecast_point daily (fold max ds d * 86400)
                         (last (ewm_mean (min 7 (length daily)) (map snd daily))) tc sd
                         (forecast_days request))
                      [1..forecast_days request],
                trend = trend_of tc sd\<rparr>"
proof -
  have ne: "ewm_mean (min 7 (length daily)) (map snd daily) \<noteq> []"
    using assms(6) by (intro ewm_mean_nonempty) auto
  show ?thesis
    using assms(1,2) ne
    by (simp add: expense_forecasting_def try_except_def Let_def not_less
          assms(3)[symmetric] assms(4,5,6,7))
qed

lemma ex_ten_expenses: "filter (\<lambda>t. type t = ''Expense'') ex_ten = ex_ten"
  by (simp add: ex_ten_def ex_tx_def)

lemma ex_ten_length: "length ex_ten = 10"
  by (simp add: ex_ten_def)

lemma ex_ten_daily:
  "daily_expenses_of ex_ten
     = [(0, 1000), (1, 1000), (2, 1000), (3, 1000), (4, 1000), (5, 1000), (6, 1000),
        (7, 1000), (8, 1000), (9, 1000)]"
  by (simp add: daily_expenses_of_def ex_ten_def ex_tx_def day_of_def)

lemma ex_ten_std: "std (map snd (daily_expenses_of ex_ten)) = Some 0"
  by (simp add: ex_ten_daily std_def)

lemma ex_ten_fit:
  "polyfit_slope (map real [0..<length (daily_expenses_of ex_ten)])
     (map snd (daily_expenses_of ex_ten)) = Inr 0"
  by (simp add: ex_ten_daily polyfit_slope_def upt_rec)

lemma ex_ten_ema:
  "ewm_mean (min 7 (length (daily_expenses_of ex_ten))) (map snd (daily_expenses_of ex_ten))
     = [1000, 1000, 1000, 1000, 1000, 1000, 1000, 1000, 1000, 1000]"
  by (simp add: ex_ten_daily ewm_mean_def Let_def)

lemma ex_ten_trend:
  "trend_coef_of (ewm_mean (min 7 (length (daily_expenses_of ex_ten)))
                    (map snd (daily_expenses_of ex_ten)))
                 (map snd (daily_expenses_of ex_ten)) = Inr 0"
  unfolding ex_ten_ema by (simp add: trend_coef_of_def polyfit_slope_def upt_rec)

lemma ex_ten_days: "map fst (daily_expenses_of ex_ten) = 0 # [1, 2, 3, 4, 5, 6, 7, 8, 9]"
  by (simp add: ex_ten_daily)

lemma ex_forecast_run:
  "expense_forecasting \<lparr>userId = ''u'', transactions = ex_ten, forecast_days = n\<rparr> =
     Inr \<lparr>forecast =
            map (forecast_point (daily_expenses_of ex_ten) (9 * 86400) 1000 0 0 n) [1..n],
          trend = ''stable''\<rparr>"
proof -
  have "expense_forecasting \<lparr>userId = ''u'', transactions = ex_ten, forecast_days = n\<rparr> =
     Inr \<lparr>forecast =
            map (forecast_point (daily_expenses_of ex_ten)
                   (fold max [1, 2, 3, 4, 5, 6, 7, 8, 9] 0 * 86400)
                   (last (ewm_mean (min 7 (length (daily_expenses_of ex_ten)))
                            (map snd (daily_expenses_of ex_ten)))) 0 0
                   (forecast_days \<lparr>userId = ''u'', transactions = ex_ten, forecast_days = n\<rparr>))
                [1..forecast_days \<lparr>userId = ''u'', transactions = ex_ten, forecast_days = n\<rparr>],
          trend = trend_of 0 0\<rparr>"
    by (rule forecasting_accepts[where z = 0])
       (simp_all add: ex_ten_expenses ex_ten_length ex_ten_fit ex_ten_std ex_ten_days ex_ten_trend)
  then show ?thesis
    by (simp add: ex_ten_ema trend_of_def)
qed

lemma ex_forecast_minus:
  "expense_forecasting \<lparr>userId = ''u'', transactions = ex_ten, forecast_days = - 1\<rparr>
     = Inr ex_empty_forecast"
  by (simp add: ex_forecast_run ex_empty_forecast_def)

lemma ex_forecast_five:
  "expense_forecasting \<lparr>userId = ''u'', transactions = ex_ten, forecast_days = 5\<rparr>
     = Inr ex_forecast_response"
  by (simp add: ex_forecast_run ex_forecast_response_def upto.simps forecast_point_def
        seasonal_factor_of_def weekday_def day_of_def ex_point_def ex_ten_daily Let_def)

lemma std_nonneg:
  assumes "std xs = Some s"
  shows "0 \<le> s"
proof -
  define m where "m = sum_list xs / real (length xs)"
  have sq: "0 \<le> sum_list (map (\<lambda>x. (x - m)\<^sup>2) xs)"
    by (rule sum_list_nonneg) auto
  from assms have "s = sqrt (sum_list (map (\<lambda>x. (x - m)\<^sup>2) xs) / real (length xs - 1))"
    by (simp add: std_def Let_def m_def split: if_splits)
  then show ?thesis
    using sq by simp
qed

text \<open>What an accepted forecasting request looks like.\<close>

lemma forecasting_accepted:
  assumes "expense_forecasting request = Inr resp"
  obtains sd d ds cur tc where
    "0 \<le> sd"
    and "map fst (daily_expenses_of
                   (filter (\<lambda>t. type t = ''Expense'') (transactions request))) = d # ds"
    and "resp =
           \<lparr>forecast =
              map (forecast_point
                     (daily_expenses_of
                        (filter (\<lambda>t. type t = ''Expense'') (transactions request)))
                     (fold max ds d * 86400) cur tc sd (forecast_days request))
                  [1..forecast_days request],
            trend = trend_of tc sd\<rparr>"
proof -
  let ?daily = "daily_expenses_of (filter (\<lambda>t. type t = ''Expense'') (transactions request))"
  from assms obtain sd d ds tc where
    s: "std (map snd ?daily) = Some sd"
    and f: "map fst ?daily = d # ds"
    and r: "resp =
              \<lparr>forecast =
                 map (forecast_point ?daily (fold max ds d * 86400)
                        (if 0 < length (ewm_mean (min 7 (length ?daily)) (map snd ?daily))
                         then last (ewm_mean (min 7 (length ?daily)) (map snd ?daily))
                         else fillna (mean (map snd ?daily)))
                        tc sd (forecast_days request))
                     [1..forecast_days request],
               trend = trend_of tc sd\<rparr>"
    unfolding expense_forecasting_def try_except_def Let_def
    by (auto split: if_splits sum.splits option.splits list.splits)
  from std_nonneg[OF s] f r show ?thesis
    by (rule that)
qed

lemma latest_expense_day:
  assumes "map fst (daily_expenses_of expenses) = d # ds"
  shows "fold max ds d = Max ((\<lambda>t. day_of (date t)) ` set expenses)"
proof -
  have "set (d # ds) = (\<lambda>t. day_of (date t)) ` set expenses"
    unfolding assms[symmetric] by (simp add: daily_expenses_of_def comp_def)
  then show ?thesis
    by (simp only: fold_max_Max)
qed

lemma forecast_point_date:
  "forecast_date (forecast_point daily ld cur tc sd n i) = ld + i * 86400"
  by (simp only: forecast_point_def Let_def ForecastPoint.simps)

lemma forecast_point_predicted:
  "predicted_expense (forecast_point daily ld cur tc sd n i)
     = max 100 (max 0 (cur + tc * real_of_int i)
                 * seasonal_factor_of daily (weekday (day_of (ld + i * 86400))))"
  by (simp only: forecast_point_def Let_def ForecastPoint.simps)

lemma forecast_point_conf:
  "confidence (forecast_point daily ld cur tc sd n i)
     = min 0.95 (max 0.6 (1 - (real_of_int i / real_of_int n * 0.3))
                 + (if length daily \<ge> 14 then 0.1 else 0))"
  by (simp only: forecast_point_def Let_def ForecastPoint.simps)

lemma forecast_point_low:
  "range_low (forecast_point daily ld cur tc sd n i)
     = max 0 (predicted_expense (forecast_point daily ld cur tc sd n i)
              - sd * (1 - confidence (forecast_point daily ld cur tc sd n i)) * 1.5)"
  by (simp only: forecast_point_def Let_def ForecastPoint.simps)

lemma forecast_point_high:
  "range_high (forecast_point daily ld cur tc sd n i)
     = predicted_expense (forecast_point daily ld cur tc sd n i)
       + sd * (1 - confidence (forecast_point daily ld cur tc sd n i)) * 1.5"
  by (simp only: forecast_point_def Let_def ForecastPoint.simps)

lemma forecast_point_bounds:
  assumes "0 \<le> sd"
  shows "range_low (forecast_point daily ld cur tc sd n i)
           \<le> predicted_expense (forecast_point daily ld cur tc sd n i)
         \<and> predicted_expense (forecast_point daily ld cur tc sd n i)
           \<le> range_high (forecast_point daily ld cur tc sd n i)"
proof -
  define c where "c = confidence (forecast_point daily ld cur tc sd n i)"
  define p where "p = predicted_expense (forecast_point daily ld cur tc sd n i)"
  have "c \<le> 0.95"
    unfolding c_def forecast_point_conf by (rule min.cobounded1)
  then have "0 \<le> 1 - c"
    by simp
  then have "0 \<le> sd * (1 - c)"
    using assms by (rule mult_nonneg_nonneg[rotated])
  then have ci: "0 \<le> sd * (1 - c) * 1.5"
    by simp
  have "(100::real) \<le> p"
    unfolding p_def forecast_point_predicted by (rule max.cobounded1)
  then have p: "0 \<le> p"
    by simp
  have lo: "range_low (forecast_point daily ld cur tc sd n i) = max 0 (p - sd * (1 - c) * 1.5)"
    unfolding p_def c_def by (rule forecast_point_low)
  have hi: "range_high (forecast_point daily ld cur tc sd n i) = p + sd * (1 - c) * 1.5"
    unfolding p_def c_def by (rule forecast_point_high)
  show ?thesis
    unfolding lo hi p_def[symmetric] using ci p by (simp add: max_def)
qed

lemma forecast_point_confidence:
  assumes "length daily < 14"
  shows "confidence (forecast_point daily ld cur tc sd n i)
           = min 0.95 (max 0.6 (1 - (real_of_int i / real_of_int n) * 0.3))"
  unfolding forecast_point_conf using assms by simp

lemma horizon_nth: "i < nat n \<Longrightarrow> [1..n] ! i = 1 + int i"
  by (simp add: nth_upto)

section \<open>The claims\<close>

text \<open>
  C1 (defect in the code).  A transaction list below the minimum size is to be rejected with a
  400-class validation failure.  Each endpoint raises \<open>HTTPException(status_code=400)\<close>
  inside its own \<open>try\<close> block, whose \<open>except Exception\<close> handler catches it and raises a
  500 instead: with two transactions, /cluster, /anomalies and /forecast all answer with
  status 500, the 400 surviving only inside the detail text.  No computation is attempted.
\<close>

theorem validation_failure_becomes_500:
  "clustering_analysis ex_kmeans \<lparr>userId = ''u'', transactions = ex_small, n_clusters = 5\<rparr>
     = Inl (HTTPException 500
              (Str (HTTPException 400 (Literal ''Need at least 3 transactions for clustering''))))
   \<and> anomaly_detection ex_iso \<lparr>userId = ''u'', transactions = ex_small, contamination = 0.1\<rparr>
     = Inl (HTTPException 500
              (Str (HTTPException 400
                      (Literal ''Need at least 5 transactions for anomaly detection''))))
   \<and> expense_forecasting \<lparr>userId = ''u'', transactions = ex_small, forecast_days = 30\<rparr>
     = Inl (HTTPException 500
              (Str (HTTPException 400
                      (Literal ''Need at least 10 transactions for forecasting''))))"
  by (simp add: clustering_analysis_def anomaly_detection_def expense_forecasting_def
        try_except_def ex_small_def)

text \<open>
  C2, as stated, fails: against a food history of 98, 100 and 102 the candidate amount 50
  scores 0.6 (it lies 25 standard deviations below the mean), the larger amount 100 scores 0.
\<close>

theorem score_not_monotone_counterexample:
  "(50::real) < 100
   \<and> score_single_transaction (ex_score_request 50)
       = Inr \<lparr>anomaly_score = 0.6, is_anomaly = True, reason = [SigmaAway 25],
              risk_level = ''high''\<rparr>
   \<and> score_single_transaction (ex_score_request 100)
       = Inr \<lparr>anomaly_score = 0, is_anomaly = False, reason = [], risk_level = ''low''\<rparr>
   \<and> \<not> (0.6::real) \<le> 0"
  using ex_score_50 ex_score_100 by simp

text \<open>
  C2 (amended).  The z-score test is two-sided, so the score is monotonic only from the
  category mean upwards: for a fixed history and category and two candidates that differ in
  the amount only, \<open>a1 < a2\<close>, the score of the second is at least the score of the first,
  provided that \<open>a1\<close> is at least the mean of the same-category history whenever that
  history holds two or more transactions.  With no or a single same-category transaction
  there is no condition.
\<close>

theorem score_monotone_from_category_mean:
  assumes "a1 < a2"
    and "2 \<le> length (category_amounts h (category t)) \<longrightarrow>
           sum_list (category_amounts h (category t))
             / real (length (category_amounts h (category t))) \<le> a1"
    and "score_single_transaction
           \<lparr>new_transaction = t\<lparr>amount := a1\<rparr>, historical_transactions = h\<rparr> = Inr r1"
    and "score_single_transaction
           \<lparr>new_transaction = t\<lparr>amount := a2\<rparr>, historical_transactions = h\<rparr> = Inr r2"
  shows "anomaly_score r1 \<le> anomaly_score r2"
proof (cases "h = []")
  case True
  with assms(3,4) show ?thesis
    by (auto simp: score_single_transaction_def try_except_def)
next
  case False
  have above: "case std (category_amounts h (category t)) of None \<Rightarrow> True
               | Some s \<Rightarrow> 0 < s \<longrightarrow>
                   sum_list (category_amounts h (category t))
                     / real (length (category_amounts h (category t))) \<le> a1"
    using assms(2) by (auto simp: std_def Let_def split: option.splits if_splits)
  have c: "fst (category_check h a1 (category t)) \<le> fst (category_check h a2 (category t))"
    using assms(1) above by (rule category_check_mono)
  have ov: "fst (overall_check h a1) \<le> fst (overall_check h a2)"
    using assms(1) by (rule overall_check_mono)
  have r1: "anomaly_score r1
              = min 1 (fst (category_check h a1 (category t)) + fst (overall_check h a1))"
    using assms(3) False
    by (auto simp: score_single_transaction_def try_except_def Let_def split: prod.splits)
  have r2: "anomaly_score r2
              = min 1 (fst (category_check h a2 (category t)) + fst (overall_check h a2))"
    using assms(4) False
    by (auto simp: score_single_transaction_def try_except_def Let_def split: prod.splits)
  show ?thesis
    unfolding r1 r2 using c ov by (simp add: min_le_iff_disj)
qed

theorem score_monotone_from_category_mean_witness:
  "(100::real) < 200
   \<and> 2 \<le> length (category_amounts ex_hist ''Food'')
   \<and> sum_list (category_amounts ex_hist ''Food'')
       / real (length (category_amounts ex_hist ''Food'')) \<le> 100
   \<and> score_single_transaction (ex_score_request 100)
       = Inr \<lparr>anomaly_score = 0, is_anomaly = False, reason = [], risk_level = ''low''\<rparr>
   \<and> score_single_transaction (ex_score_request 200)
       = Inr \<lparr>anomaly_score = 0.9, is_anomaly = True, reason = [SigmaAway 50, Top1Percent],
              risk_level = ''high''\<rparr>
   \<and> (0::real) \<le> 0.9"
proof -
  have lt: "(100::real) < 200"
    by simp
  have hist: "2 \<le> length (category_amounts ex_hist ''Food'')
              \<and> sum_list (category_amounts ex_hist ''Food'')
                  / real (length (category_amounts ex_hist ''Food'')) \<le> 100"
    by (simp add: category_amounts_def ex_hist_def ex_tx_def)
  have above: "2 \<le> length (category_amounts ex_hist (category (ex_tx 3 0 ''Expense'' ''Food''))) \<longrightarrow>
                 sum_list (category_amounts ex_hist (category (ex_tx 3 0 ''Expense'' ''Food'')))
                   / real (length (category_amounts ex_hist
                                     (category (ex_tx 3 0 ''Expense'' ''Food'')))) \<le> 100"
    using hist by (simp add: ex_tx_def)
  from score_monotone_from_category_mean
         [OF lt above ex_score_100[unfolded ex_score_request_def]
             ex_score_200[unfolded ex_score_request_def]]
  show ?thesis
    using ex_score_100 ex_score_200 hist by simp
qed

text \<open>
  C3, as stated, fails: a request for exactly as many clusters as there are rows exceeds
  \<open>row_count - 1\<close> and is not clamped.  With the three example transactions and
  \<open>n_clusters = 3\<close> the algorithm receives 3, not at most 2.
\<close>

theorem n_clusters_not_clamped_counterexample:
  "int (length (engineer_features_for_clustering ex_three)) - 1 < 3
   \<and> effective_n_clusters (length (engineer_features_for_clustering ex_three)) 3 = 3
   \<and> \<not> (3::int) \<le> int (length (engineer_features_for_clustering ex_three)) - 1"
  by (simp add: features_rows effective_n_clusters_def ex_three_def)

text \<open>
  C3 (amended).  With at least three transactions, a requested cluster count above
  \<open>row_count\<close> is replaced by \<open>row_count - 1\<close>, which is at least 2; a request of at most
  \<open>row_count\<close> is passed on unchanged.  The clustering algorithm therefore never receives
  more clusters than there are rows, and for three transactions with \<open>n_clusters = 5\<close> it
  receives 2.
\<close>

theorem n_clusters_clamp:
  assumes "3 \<le> length df"
  shows "effective_n_clusters (length (engineer_features_for_clustering df)) n
           = (if int (length df) < n then int (length df) - 1 else n)
         \<and> effective_n_clusters (length (engineer_features_for_clustering df)) n
             \<le> int (length df)
         \<and> (if int (length df) < n
            then 2 \<le> effective_n_clusters (length (engineer_features_for_clustering df)) n
            else True)"
  using assms by (auto simp: features_rows effective_n_clusters_def)

theorem n_clusters_clamp_witness:
  "3 \<le> length ex_three
   \<and> effective_n_clusters (length (engineer_features_for_clustering ex_three)) 5 = 2"
proof -
  have h: "3 \<le> length ex_three"
    by (simp add: ex_three_def)
  from n_clusters_clamp[OF h, of 5] show ?thesis
    using h by (simp add: ex_three_def)
qed

text \<open>
  C4 (defect in the code).  The essentials ratio is to be the fraction of the cluster's expense
  transactions whose category is essential, hence at most 1.  The code counts the essential
  categories over all rows of the cluster, income included, and divides by the number of
  expense rows: for a cluster of one grocery expense and one insurance payout the ratio is 2.
\<close>

theorem essentials_ratio_counts_income_rows:
  "essentials_ratio ex_payout_cluster = 2
   \<and> expense_count ex_payout_cluster = 1
   \<and> length (filter (\<lambda>t. type t = ''Expense'' \<and> category t \<in> essentials) ex_payout_cluster) = 1"
  by (simp add: essentials_ratio_def expense_count_def ex_payout_cluster_def ex_tx_def
        essentials_def)

text \<open>
  C5, as stated, fails for a cluster whose transactions fall on a single day: the code
  returns the bare count there.  For two transactions of the same day the frequency is 2,
  while \<open>(count / max(span, 1)) * 30\<close> is 60.
\<close>

theorem frequency_single_day_counterexample:
  "date_range ex_same_day_cluster = 0
   \<and> frequency ex_same_day_cluster = 2
   \<and> real (length ex_same_day_cluster)
       / real_of_int (max (date_range ex_same_day_cluster) 1) * 30 = 60"
  by (simp add: frequency_def date_range_def ex_same_day_cluster_def ex_tx_def)

text \<open>
  C5 (amended).  For every cluster, with \<open>date_span_days\<close> the whole days between its
  earliest and latest transaction date (never negative): the frequency equals
  \<open>(count / max(date_span_days, 1)) * 30\<close> when the span is positive, and equals \<open>count\<close>
  when the span is 0.
\<close>

theorem frequency_by_span:
  assumes "cluster_df \<noteq> []"
  shows "date_range cluster_df
           = (Max (date ` set cluster_df) - Min (date ` set cluster_df)) div 86400
         \<and> 0 \<le> date_range cluster_df
         \<and> frequency cluster_df =
             (if 0 < date_range cluster_df
              then real (length cluster_df) / real_of_int (max (date_range cluster_df) 1) * 30
              else real (length cluster_df))"
  using date_range_eq[OF assms] date_range_nonneg[of cluster_df]
  by (simp add: frequency_def Let_def)

theorem frequency_by_span_witness:
  "ex_three \<noteq> [] \<and> date_range ex_three = 2 \<and> frequency ex_three = 45"
proof -
  have h: "ex_three \<noteq> []"
    by (simp add: ex_three_def)
  have d: "date_range ex_three = 2"
    by (simp add: date_range_def ex_three_def ex_tx_def)
  from frequency_by_span[OF h] show ?thesis
    using h d by (simp add: ex_three_def)
qed

text \<open>
  C10.  In every single-transaction scoring response, \<open>is_anomaly\<close> implies that the risk
  level is medium or high: \<open>is_anomaly\<close> needs a score above 0.5, and every score from 0.3
  upwards is at least medium.
\<close>

theorem anomaly_never_low_risk:
  assumes "score_single_transaction request = Inr resp"
    and "is_anomaly resp"
  shows "risk_level resp = ''medium'' \<or> risk_level resp = ''high''"
  using assms
  by (auto simp: score_single_transaction_def try_except_def risk_of_def Let_def
           split: if_splits prod.splits)

theorem anomaly_never_low_risk_witness:
  "score_single_transaction (ex_score_request 200)
     = Inr \<lparr>anomaly_score = 0.9, is_anomaly = True, reason = [SigmaAway 50, Top1Percent],
            risk_level = ''high''\<rparr>
   \<and> is_anomaly \<lparr>anomaly_score = 0.9, is_anomaly = True, reason = [SigmaAway 50, Top1Percent],
                 risk_level = ''high''\<rparr>
   \<and> (risk_level \<lparr>anomaly_score = 0.9, is_anomaly = True,
                  reason = [SigmaAway 50, Top1Percent], risk_level = ''high''\<rparr> = ''medium''
      \<or> risk_level \<lparr>anomaly_score = 0.9, is_anomaly = True,
                    reason = [SigmaAway 50, Top1Percent], risk_level = ''high''\<rparr> = ''high'')"
proof -
  have a: "is_anomaly \<lparr>anomaly_score = 0.9, is_anomaly = True,
                       reason = [SigmaAway 50, Top1Percent], risk_level = ''high''\<rparr>"
    by simp
  from anomaly_never_low_risk[OF ex_score_200 a] show ?thesis
    using ex_score_200 by simp
qed

text \<open>
  C6, as stated, fails in its second half: the \<open>scores\<close> list follows the row order of
  \<open>anomalies\<close>, it is not sorted.  On ten food expenses of which row 0 is 5000 and row 1
  is 50000, at contamination 0.2, the detector flags rows 0 and 1 and finds row 1 the more
  anomalous; the response carries \<open>scores = [0.69, 0.8]\<close>, which is not descending.  Only
  \<open>high_risk_transactions\<close> is reordered.
\<close>

theorem anomaly_scores_unsorted_counterexample:
  "anomaly_detection ex_iso \<lparr>userId = ''u'', transactions = ex_outliers, contamination = 0.2\<rparr>
     = Inr ex_anomaly_response
   \<and> scores ex_anomaly_response = [0.69, 0.8]
   \<and> \<not> sorted_wrt (\<ge>) [0.69, 0.8 :: real]"
proof (intro conjI)
  show "anomaly_detection ex_iso
          \<lparr>userId = ''u'', transactions = ex_outliers, contamination = 0.2\<rparr>
          = Inr ex_anomaly_response"
    by (rule ex_anomaly_run)
  show "scores ex_anomaly_response = [0.69, 0.8]"
    by (simp add: ex_anomaly_response_def)
  show "\<not> sorted_wrt (\<ge>) [0.69, 0.8 :: real]"
    by (simp del: sorted_wrt.simps add: sorted_wrt2_simps)
qed

text \<open>
  C6 (amended).  In every batch anomaly response, \<open>anomalies\<close> is a strictly ascending list
  of input row indices in \<open>{0..n-1}\<close>, namely the rows the detector labelled -1;
  \<open>scores\<close> holds at position k the sign-flipped detector score of row \<open>anomalies[k]\<close>, in
  that row order; and \<open>high_risk_transactions\<close> holds one record per anomaly, each with
  the score of its row, sorted in descending order of \<open>anomaly_score\<close>.
\<close>

theorem anomaly_response_shape:
  assumes "anomaly_detection iso_forest request = Inr resp"
  shows "set (anomalies resp) \<subseteq> {0..<length (transactions request)}
         \<and> sorted (anomalies resp) \<and> distinct (anomalies resp)
         \<and> (\<exists>anomaly_labels anomaly_scores.
               iso_forest (contamination request) (transactions request)
                 = Inr (anomaly_labels, anomaly_scores)
             \<and> anomalies resp = anomaly_indices_of anomaly_labels
             \<and> scores resp = map (\<lambda>idx. - (anomaly_scores ! idx)) (anomalies resp)
             \<and> (\<forall>x \<in> set (high_risk_transactions resp).
                   anomaly_score' x = - (anomaly_scores ! index x)))
         \<and> set (map index (high_risk_transactions resp)) = set (anomalies resp)
         \<and> length (high_risk_transactions resp) = length (anomalies resp)
         \<and> sorted_wrt (\<ge>) (map anomaly_score' (high_risk_transactions resp))"
proof -
  from assms obtain ls sc where
    iso: "iso_forest (contamination request) (transactions request) = Inr (ls, sc)"
    and in_df: "\<forall>idx \<in> set (anomaly_indices_of ls). idx < length (transactions request)"
    and resp:
      "resp =
         \<lparr>anomalies = anomaly_indices_of ls,
          scores = map (\<lambda>idx. - (sc ! idx)) (anomaly_indices_of ls),
          high_risk_transactions =
            sort_key (\<lambda>x. - anomaly_score' x)
              (map (\<lambda>idx.
                      \<lparr>index = idx, amount' = amount (transactions request ! idx),
                       category' = category (transactions request ! idx),
                       date' = date (transactions request ! idx),
                       anomaly_score' = - (sc ! idx),
                       reason' = explain_anomaly (transactions request ! idx)
                                   (transactions request)\<rparr>)
                   (anomaly_indices_of ls))\<rparr>"
    by (auto simp: anomaly_detection_def try_except_def Let_def not_le
             split: if_splits sum.splits prod.splits)
  have a: "set (anomalies resp) \<subseteq> {0..<length (transactions request)}"
    using in_df by (auto simp: resp)
  have b: "sorted (anomalies resp) \<and> distinct (anomalies resp)"
    using anomaly_indices_ascending by (simp add: resp)
  have c: "sorted_wrt (\<ge>) (map anomaly_score' (high_risk_transactions resp))"
    unfolding resp
    by (simp only: AnomalyResponse.simps, rule descending_of_negated_key, rule sorted_sort_key)
  have d: "set (map index (high_risk_transactions resp)) = set (anomalies resp)"
    by (simp add: resp image_image)
  have e: "\<forall>x \<in> set (high_risk_transactions resp). anomaly_score' x = - (sc ! index x)"
    by (auto simp: resp)
  have f: "length (high_risk_transactions resp) = length (anomalies resp)"
    by (simp add: resp)
  show ?thesis
    using a b c d e f iso by (simp add: resp)
qed

theorem anomaly_response_shape_witness:
  "anomaly_detection ex_iso \<lparr>userId = ''u'', transactions = ex_outliers, contamination = 0.2\<rparr>
     = Inr ex_anomaly_response
   \<and> length (high_risk_transactions ex_anomaly_response) = length (anomalies ex_anomaly_response)
   \<and> sorted_wrt (\<ge>) (map anomaly_score' (high_risk_transactions ex_anomaly_response))"
  using anomaly_response_shape[OF ex_anomaly_run] ex_anomaly_run by simp



text \<open>
  C7, as stated, fails for a negative horizon: the request is accepted and the loop
  \<open>range(1, forecast_days + 1)\<close> runs zero times.  For ten daily expenses and
  \<open>forecast_days = -1\<close> the forecast is empty, and its length 0 is not \<open>forecast_days\<close>.
\<close>

theorem forecast_negative_horizon_counterexample:
  "expense_forecasting \<lparr>userId = ''u'', transactions = ex_ten, forecast_days = - 1\<rparr>
     = Inr ex_empty_forecast
   \<and> int (length (forecast ex_empty_forecast)) \<noteq> - 1"
  using ex_forecast_minus by (simp add: ex_empty_forecast_def)

text \<open>
  C7 (amended).  For every accepted forecasting request the returned forecast has exactly
  \<open>max(forecast_days, 0)\<close> points; for every point
  \<open>range_low \<le> predicted_expense \<le> range_high\<close>; and the point dates are consecutive
  calendar days in strictly increasing order, point \<open>i\<close> (counted from 0) lying \<open>i + 1\<close> days
  after the latest day of the history that has an expense.
\<close>

theorem forecast_shape:
  assumes "expense_forecasting request = Inr resp"
  shows "length (forecast resp) = nat (forecast_days request)
         \<and> (\<forall>p \<in> set (forecast resp).
               range_low p \<le> predicted_expense p \<and> predicted_expense p \<le> range_high p)
         \<and> (\<forall>i < length (forecast resp).
               forecast_date (forecast resp ! i)
                 = (Max ((\<lambda>t. day_of (date t))
                          ` set (filter (\<lambda>t. type t = ''Expense'') (transactions request)))
                    + 1 + int i) * 86400)"
proof -
  let ?expenses = "filter (\<lambda>t. type t = ''Expense'') (transactions request)"
  from assms obtain sd d ds cur tc where
    sd: "0 \<le> sd"
    and f: "map fst (daily_expenses_of ?expenses) = d # ds"
    and r: "resp =
              \<lparr>forecast =
                 map (forecast_point (daily_expenses_of ?expenses) (fold max ds d * 86400)
                        cur tc sd (forecast_days request))
                     [1..forecast_days request],
               trend = trend_of tc sd\<rparr>"
    by (rule forecasting_accepted)
  have len: "length (forecast resp) = nat (forecast_days request)"
    by (simp add: r)
  have bounds: "\<forall>p \<in> set (forecast resp).
                  range_low p \<le> predicted_expense p \<and> predicted_expense p \<le> range_high p"
    using forecast_point_bounds[OF sd] by (auto simp: r)
  have dates: "forecast_date (forecast resp ! i)
                 = (Max ((\<lambda>t. day_of (date t)) ` set ?expenses) + 1 + int i) * 86400"
    if "i < length (forecast resp)" for i
  proof -
    from that have i: "i < nat (forecast_days request)"
      by (simp add: r)
    then have "forecast resp ! i
                 = forecast_point (daily_expenses_of ?expenses) (fold max ds d * 86400)
                     cur tc sd (forecast_days request) (1 + int i)"
      by (simp add: r horizon_nth)
    then show ?thesis
      by (simp add: forecast_point_date latest_expense_day[OF f] algebra_simps)
  qed
  show ?thesis
    using len bounds dates by blast
qed

theorem forecast_shape_witness:
  "expense_forecasting \<lparr>userId = ''u'', transactions = ex_ten, forecast_days = 5\<rparr>
     = Inr ex_forecast_response
   \<and> length (forecast ex_forecast_response) = 5
   \<and> range_low (ex_point 10 0.94 ''Sun'') \<le> predicted_expense (ex_point 10 0.94 ''Sun'')
   \<and> predicted_expense (ex_point 10 0.94 ''Sun'') \<le> range_high (ex_point 10 0.94 ''Sun'')
   \<and> forecast_date (forecast ex_forecast_response ! 0) = 864000"
  using forecast_shape[OF ex_forecast_five] ex_forecast_five
  by (simp add: ex_forecast_response_def ex_point_def)

text \<open>
  C8.  For every accepted forecasting request with fewer than 14 days of daily expense
  history, the confidence of forecast day \<open>i\<close> (1 to N) is
  \<open>min(0.95, max(0.6, 1 - (i/N) * 0.3))\<close>, and the confidence never increases along the
  horizon.
\<close>

theorem confidence_without_seasonality:
  assumes "expense_forecasting request = Inr resp"
    and "length (daily_expenses_of
                   (filter (\<lambda>t. type t = ''Expense'') (transactions request))) < 14"
  shows "(\<forall>i < length (forecast resp).
            confidence (forecast resp ! i)
              = min 0.95 (max 0.6 (1 - (real (i + 1) / real_of_int (forecast_days request))
                                         * 0.3)))
         \<and> (\<forall>i j. i \<le> j \<and> j < length (forecast resp)
               \<longrightarrow> confidence (forecast resp ! j) \<le> confidence (forecast resp ! i))"
proof -
  let ?expenses = "filter (\<lambda>t. type t = ''Expense'') (transactions request)"
  let ?n = "forecast_days request"
  from assms(1) obtain sd d ds cur tc where
    sd: "0 \<le> sd"
    and f: "map fst (daily_expenses_of ?expenses) = d # ds"
    and r: "resp =
          \<lparr>forecast =
             map (forecast_point (daily_expenses_of ?expenses) (fold max ds d * 86400)
                    cur tc sd ?n)
                 [1..?n],
           trend = trend_of tc sd\<rparr>"
    by (rule forecasting_accepted)
  have conf: "confidence (forecast resp ! i)
                = min 0.95 (max 0.6 (1 - (real (i + 1) / real_of_int ?n) * 0.3))"
    if "i < length (forecast resp)" for i
  proof -
    from that have i: "i < nat ?n"
      by (simp add: r)
    then have "forecast resp ! i
                 = forecast_point (daily_expenses_of ?expenses) (fold max ds d * 86400)
                     cur tc sd ?n (1 + int i)"
      by (simp add: r horizon_nth)
    then show ?thesis
      by (simp add: forecast_point_confidence[OF assms(2)] add.commute)
  qed
  have mono: "confidence (forecast resp ! j) \<le> confidence (forecast resp ! i)"
    if "i \<le> j" and "j < length (forecast resp)" for i j
  proof -
    from that have j: "j < nat ?n" and i: "i < length (forecast resp)"
      by (simp_all add: r)
    then have pos: "0 < real_of_int ?n"
      by simp
    define xi where "xi = real (i + 1) / real_of_int ?n"
    define xj where "xj = real (j + 1) / real_of_int ?n"
    have "xi \<le> xj"
      unfolding xi_def xj_def using that(1) pos by (simp add: divide_le_cancel)
    then have "1 - xj * 0.3 \<le> 1 - xi * 0.3"
      by simp
    then have "max 0.6 (1 - xj * 0.3) \<le> max 0.6 (1 - xi * 0.3)"
      by (rule max.mono[OF order_refl])
    then have "min 0.95 (max 0.6 (1 - xj * 0.3)) \<le> min 0.95 (max 0.6 (1 - xi * 0.3))"
      by (rule min.mono[OF order_refl])
    then show ?thesis
      unfolding conf[OF i] conf[OF that(2)] xi_def xj_def .
  qed
  show ?thesis
    using conf mono by blast
qed

theorem confidence_without_seasonality_witness:
  "expense_forecasting \<lparr>userId = ''u'', transactions = ex_ten, forecast_days = 5\<rparr>
     = Inr ex_forecast_response
   \<and> length (daily_expenses_of (filter (\<lambda>t. type t = ''Expense'') ex_ten)) < 14
   \<and> map confidence (forecast ex_forecast_response) = [0.94, 0.88, 0.82, 0.76, 0.7]
   \<and> confidence (forecast ex_forecast_response ! 4) \<le> confidence (forecast ex_forecast_response ! 0)"
proof -
  have short: "length (daily_expenses_of
                         (filter (\<lambda>t. type t = ''Expense'')
                            (transactions \<lparr>userId = ''u'', transactions = ex_ten,
                                           forecast_days = 5\<rparr>))) < 14"
    by (simp add: ex_ten_expenses ex_ten_daily)
  from confidence_without_seasonality[OF ex_forecast_five short] show ?thesis
    using ex_forecast_five short
    by (simp add: ex_forecast_response_def ex_point_def)
qed

end
